theory Spec2Isabelle
  imports Main
begin

section \<open>The throttled debounce combinator\<close>

text \<open>
  The closure returned by \<^verbatim>\<open>throttledDebounce(options)\<close> is modelled by explicit state
  passing. The variables closed over by the outer function are the fields of the
  record \<open>state\<close>. Context objects are shared by reference (the control function, the
  callback and the closures \<^verbatim>\<open>split\<close> and \<^verbatim>\<open>contextBounce\<close> all hold the same object), so
  they live in an explicit store \<open>heap\<close>, a list indexed by the order of allocation;
  the variable \<^verbatim>\<open>context\<close> is an index into it (the field \<open>the_context\<close>), and so are
  the object a \<^verbatim>\<open>split\<close> or \<^verbatim>\<open>contextBounce\<close> closure was created for. In the source the
  variable always holds a live object once the constructor has run; the invariant
  \<open>heap_inv\<close> below says the same of the index in every reachable state.

  Times are integers (milliseconds, what \<^verbatim>\<open>(new Date()).getTime()\<close> returns); the present
  time is an argument of every function that reads the clock.
\<close>

subsection \<open>Data\<close>

datatype trigger = Throttle | Debounce | Control | Global

text \<open>
  A context object: \<^verbatim>\<open>callCount\<close>, \<^verbatim>\<open>arguments\<close> (\<open>None\<close> is \<^verbatim>\<open>undefined\<close>), \<^verbatim>\<open>trigger\<close>
  (absent until the bounce) and whether the property \<^verbatim>\<open>split\<close> is still on the object
  (\<^verbatim>\<open>delete context.split\<close> removes it).
\<close>

record 'a chain_context =
  callCount :: int
  arguments :: "'a list option"
  trigger :: "trigger option"
  has_split :: bool

text \<open>The two functions handed to \<^verbatim>\<open>setTimeoutFunc\<close>.\<close>

datatype timer_func = FeedThrottleTimeoutFunc | MaxDelayTimeoutFunc

text \<open>
  The options. The invocations of \<^verbatim>\<open>options.callback\<close> are recorded in the field \<open>calls\<close>
  of the state; what the callback does is a parameter of the functions that depend on it
  (the type \<open>callback\<close> below). \<^verbatim>\<open>options.controlFunc\<close> acts on the combinator only through the
  calls of \<^verbatim>\<open>split\<close> it makes, so it is a function from the context it is given (its
  index and its contents) to those calls, in order: the context whose \<^verbatim>\<open>split\<close> closure
  is called (the present one, or one retained from an earlier invocation) and whether
  the argument \<^verbatim>\<open>includeCurrent\<close> is \<^verbatim>\<open>true\<close>.
\<close>

record 'a options =
  controlFunc :: "(nat \<Rightarrow> 'a chain_context \<Rightarrow> (nat \<times> bool) list) option"
  maxDelay :: "int option"
  throttleWait :: int

text \<open>
  The closed-over variables of \<^verbatim>\<open>throttledDebounce\<close>, followed by the store of context
  objects, the host's pending timers (handle, function, due time), the next handle the
  host hands out, and the record of the calls of \<^verbatim>\<open>options.callback\<close>: the index of the
  context passed and its contents at the moment of the call.
\<close>

record 'a state =
  maxDelayHandle :: "nat option"
  throttleHandle :: "nat option"
  didBounce :: bool
  throttleTime :: "int option"
  cancelled :: bool
  the_context :: nat
  gotAnyEvent :: bool
  bounce :: nat
  splitEventChain :: bool
  includeLastEventOnSplitting :: bool
  heap :: "'a chain_context list"
  timers :: "(nat \<times> timer_func \<times> int) list"
  next_handle :: nat
  calls :: "(nat \<times> 'a chain_context) list"

subsection \<open>The host's timers\<close>

text \<open>
  \<^verbatim>\<open>options.setTimeout\<close> and \<^verbatim>\<open>options.clearTimeout\<close> are supplied by the host. They are
  modelled as a deterministic timer queue: a timer set at time \<open>now\<close> with delay \<open>d\<close> is
  due at \<open>now + max 0 d\<close> and gets a fresh handle; clearing a handle removes its timer.
\<close>

definition setTimeoutFunc :: "timer_func \<Rightarrow> int \<Rightarrow> int \<Rightarrow> 'a state \<Rightarrow> nat \<times> 'a state" where
  "setTimeoutFunc f delay now s =
     (next_handle s,
      s\<lparr>timers := timers s @ [(next_handle s, f, now + max 0 delay)],
        next_handle := Suc (next_handle s)\<rparr>)"

definition clearTimeoutFunc :: "nat \<Rightarrow> 'a state \<Rightarrow> 'a state" where
  "clearTimeoutFunc h s = s\<lparr>timers := filter (\<lambda>t. fst t \<noteq> h) (timers s)\<rparr>"

subsection \<open>Bounce and reset\<close>

definition fresh_context :: "'a chain_context" where
  "fresh_context = \<lparr>callCount = 0, arguments = None, trigger = None, has_split = True\<rparr>"

text \<open>\<^verbatim>\<open>reset\<close>: a new event chain. The new object \<^verbatim>\<open>thisContext\<close> is allocated at the end of
  the store; \<^verbatim>\<open>bounce\<close> becomes the closure \<^verbatim>\<open>contextBounce\<close> of that object.\<close>

definition reset :: "'a state \<Rightarrow> 'a state" where
  "reset s =
     (let s1 = s\<lparr>gotAnyEvent := False, throttleTime := None, didBounce := False\<rparr>;
          s2 = (case throttleHandle s1 of
                  None \<Rightarrow> s1
                | Some h \<Rightarrow> (clearTimeoutFunc h s1)\<lparr>throttleHandle := None\<rparr>);
          s3 = (case maxDelayHandle s2 of
                  None \<Rightarrow> s2
                | Some h \<Rightarrow> (clearTimeoutFunc h s2)\<lparr>maxDelayHandle := None\<rparr>);
          thisContext = length (heap s3)
      in s3\<lparr>heap := heap s3 @ [fresh_context],
            bounce := thisContext,
            the_context := thisContext\<rparr>)"

text \<open>\<^verbatim>\<open>triggerBounce\<close>, for a callback that returns without calling the handle (the call is
  recorded in \<open>calls\<close>; \<open>triggerBounce_re\<close> below is the function for any callback). It
  returns \<open>True\<close> for \<^verbatim>\<open>true\<close> and \<open>False\<close> for \<^verbatim>\<open>undefined\<close>.
  \<^verbatim>\<open>Array.prototype.slice.call\<close> copies the arguments into an array with the same
  elements, which is the same list here.\<close>

definition triggerBounce :: "trigger \<Rightarrow> 'a state \<Rightarrow> bool \<times> 'a state" where
  "triggerBounce trig s =
     (if \<not> didBounce s \<and> \<not> cancelled s then
        let c = the_context s;
            s1 = s\<lparr>didBounce := True\<rparr>;
            s2 = s1\<lparr>heap := (heap s1)[c := (heap s1 ! c)\<lparr>trigger := Some trig, has_split := False\<rparr>]\<rparr>;
            s3 = s2\<lparr>calls := calls s2 @ [(c, heap s2 ! c)]\<rparr>
        in (True, reset s3)
      else (False, s))"

text \<open>The closure \<^verbatim>\<open>split\<close> of the context object \<open>thisContext\<close>.\<close>

definition split :: "nat \<Rightarrow> bool \<Rightarrow> 'a state \<Rightarrow> bool \<times> 'a state" where
  "split thisContext includeCurrent s =
     (if the_context s = thisContext \<and> \<not> splitEventChain s then
        let s1 = s\<lparr>splitEventChain := True\<rparr>;
            s2 = (if includeCurrent then s1\<lparr>includeLastEventOnSplitting := True\<rparr> else s1)
        in (True, s2)
      else (False, s))"

text \<open>The closure \<^verbatim>\<open>contextBounce\<close> of the context object \<open>thisContext\<close>, and a call
  through the variable \<^verbatim>\<open>bounce\<close>.\<close>

definition contextBounce :: "nat \<Rightarrow> trigger \<Rightarrow> 'a state \<Rightarrow> bool \<times> 'a state" where
  "contextBounce thisContext trig s =
     (if the_context s = thisContext then triggerBounce trig s else (False, s))"

definition call_bounce :: "trigger \<Rightarrow> 'a state \<Rightarrow> bool \<times> 'a state" where
  "call_bounce trig s = contextBounce (bounce s) trig s"

subsection \<open>The timing engine\<close>

definition setMaxDelay :: "'a options \<Rightarrow> int \<Rightarrow> 'a state \<Rightarrow> 'a state" where
  "setMaxDelay opts now s =
     (let (h, s1) = setTimeoutFunc MaxDelayTimeoutFunc
                      (case maxDelay opts of None \<Rightarrow> 0 | Some d \<Rightarrow> d) now s
      in s1\<lparr>maxDelayHandle := Some h\<rparr>)"

definition maxDelayTimeoutFunc :: "'a state \<Rightarrow> 'a state" where
  "maxDelayTimeoutFunc s = snd (call_bounce Debounce (s\<lparr>maxDelayHandle := None\<rparr>))"

text \<open>\<^verbatim>\<open>createThrottleTimeout\<close>: \<^verbatim>\<open>overrideTime || options.throttleWait\<close> takes the
  throttle wait when the override is absent or zero.\<close>

definition createThrottleTimeout :: "'a options \<Rightarrow> int option \<Rightarrow> int \<Rightarrow> 'a state \<Rightarrow> 'a state" where
  "createThrottleTimeout opts overrideTime now s =
     (let overrideTime' = map_option (min (throttleWait opts)) overrideTime;
          delay = (case overrideTime' of
                     None \<Rightarrow> throttleWait opts
                   | Some v \<Rightarrow> if v = 0 then throttleWait opts else v);
          (h, s1) = setTimeoutFunc FeedThrottleTimeoutFunc delay now s
      in s1\<lparr>throttleHandle := Some h\<rparr>)"

text \<open>\<^verbatim>\<open>passedTime\<close> of \<^verbatim>\<open>feedThrottle\<close>: a throttle time that is \<^verbatim>\<open>undefined\<close> or zero is
  falsy and gives 0.\<close>

definition passedTime :: "'a options \<Rightarrow> int \<Rightarrow> 'a state \<Rightarrow> int" where
  "passedTime opts now s =
     (case throttleTime s of
        None \<Rightarrow> 0
      | Some tt \<Rightarrow> if tt = 0 then 0 else throttleWait opts - (tt - now))"

definition feedThrottle :: "'a options \<Rightarrow> int \<Rightarrow> 'a state \<Rightarrow> 'a state" where
  "feedThrottle opts now s =
     (if throttleHandle s = None then
        createThrottleTimeout opts None now (s\<lparr>throttleTime := Some (now + throttleWait opts)\<rparr>)
      else
        if passedTime opts now s > 0 then
          s\<lparr>throttleTime := map_option (\<lambda>tt. tt + passedTime opts now s) (throttleTime s)\<rparr>
        else
          snd (call_bounce Throttle s))"

text \<open>\<^verbatim>\<open>feedThrottleTimeoutFunc\<close>: with the throttle time \<^verbatim>\<open>undefined\<close> the difference is
  \<^verbatim>\<open>NaN\<close>, which is not greater than zero.\<close>

definition feedThrottleTimeoutFunc :: "'a options \<Rightarrow> int \<Rightarrow> 'a state \<Rightarrow> 'a state" where
  "feedThrottleTimeoutFunc opts now s =
     (let s1 = s\<lparr>throttleHandle := None\<rparr>
      in case throttleTime s1 of
           None \<Rightarrow> snd (call_bounce Throttle s1)
         | Some tt \<Rightarrow>
             if tt - now > 0 then createThrottleTimeout opts (Some (tt - now)) now s1
             else snd (call_bounce Throttle s1))"

subsection \<open>The listener\<close>

text \<open>The control function's calls of \<^verbatim>\<open>split\<close>, one after the other.\<close>

fun call_controlFunc :: "(nat \<times> bool) list \<Rightarrow> 'a state \<Rightarrow> 'a state" where
  "call_controlFunc [] s = s"
| "call_controlFunc ((g, includeCurrent) # rest) s =
     call_controlFunc rest (snd (split g includeCurrent s))"

text \<open>The first lines of the listener: the event lands in the present context.\<close>

definition land_event :: "'a list \<Rightarrow> 'a state \<Rightarrow> 'a state" where
  "land_event args s =
     (let c = the_context s
      in s\<lparr>gotAnyEvent := True,
           heap := (heap s)[c := (heap s ! c)\<lparr>callCount := callCount (heap s ! c) + 1,
                                              arguments := Some args\<rparr>]\<rparr>)"

text \<open>The last lines of the listener: the throttle is fed, and the max-delay timer is set
  when none is outstanding.\<close>

definition listener_timing :: "'a options \<Rightarrow> int \<Rightarrow> 'a state \<Rightarrow> 'a state" where
  "listener_timing opts now s =
     (let s1 = feedThrottle opts now s
      in if maxDelayHandle s1 = None \<and> maxDelay opts \<noteq> None then setMaxDelay opts now s1
         else s1)"

text \<open>The state the control function is called in.\<close>

definition before_controlFunc :: "'a state \<Rightarrow> 'a state" where
  "before_controlFunc s = s\<lparr>splitEventChain := False, includeLastEventOnSplitting := False\<rparr>"

text \<open>The split of the chain before the bounce: the event is taken out of the chain.\<close>

definition exclude_event :: "'a list option \<Rightarrow> 'a state \<Rightarrow> 'a state" where
  "exclude_event previousArguments s =
     (let c = the_context s
      in s\<lparr>heap := (heap s)[c := (heap s ! c)\<lparr>arguments := previousArguments,
                                              callCount := callCount (heap s ! c) - 1\<rparr>]\<rparr>)"

text \<open>The call of the control function: the split flags are cleared, then the control
  function runs on the present context.\<close>

definition invoke_controlFunc ::
  "(nat \<Rightarrow> 'a chain_context \<Rightarrow> (nat \<times> bool) list) \<Rightarrow> 'a state \<Rightarrow> 'a state" where
  "invoke_controlFunc f s =
     (let s2 = before_controlFunc s
      in call_controlFunc (f (the_context s2) (heap s2 ! the_context s2)) s2)"

text \<open>The handling of a call of \<^verbatim>\<open>split\<close>, up to the bounce: the state in which the listener
  either returns or calls itself again.\<close>

definition split_chain :: "'a list option \<Rightarrow> 'a state \<Rightarrow> 'a state" where
  "split_chain previousArguments s =
     (let s4 = (if \<not> includeLastEventOnSplitting s
                then exclude_event previousArguments s else s)
      in snd (call_bounce Control s4))"

lemma splitEventChain_reset: "splitEventChain (reset s) = splitEventChain s"
  by (simp add: reset_def clearTimeoutFunc_def Let_def split: option.splits)

lemma splitEventChain_triggerBounce:
  "splitEventChain (snd (triggerBounce trig s)) = splitEventChain s"
  by (simp add: triggerBounce_def Let_def splitEventChain_reset)

lemma splitEventChain_call_bounce:
  "splitEventChain (snd (call_bounce trig s)) = splitEventChain s"
  by (simp add: call_bounce_def contextBounce_def splitEventChain_triggerBounce)

lemma splitEventChain_exclude_event:
  "splitEventChain (exclude_event p s) = splitEventChain s"
  by (simp add: exclude_event_def Let_def)

lemma splitEventChain_split_chain:
  "splitEventChain (split_chain p s) = splitEventChain s"
  by (simp add: split_chain_def Let_def splitEventChain_call_bounce
      splitEventChain_exclude_event)

lemma splitEventChain_land_event: "splitEventChain (land_event args s) = splitEventChain s"
  by (simp add: land_event_def Let_def)

text \<open>The listener. It calls itself after a split that leaves the event out; the split
  flag is still set then, so the second call cannot split again.\<close>

function listener :: "'a options \<Rightarrow> int \<Rightarrow> 'a list \<Rightarrow> 'a state \<Rightarrow> 'a state" where
  "listener opts now args s =
     (if cancelled s then s
      else
        let previousArguments = arguments (heap s ! the_context s);
            s1 = land_event args s
        in case controlFunc opts of
             None \<Rightarrow> listener_timing opts now s1
           | Some f \<Rightarrow>
               let previousSplitEventChain = splitEventChain s1;
                   s3 = invoke_controlFunc f s1
               in if splitEventChain s3 \<and> \<not> previousSplitEventChain then
                    let s5 = split_chain previousArguments s3
                    in if \<not> includeLastEventOnSplitting s5 then listener opts now args s5
                       else s5
                  else listener_timing opts now s3)"
  by pat_completeness auto
termination
  by (relation "measure (\<lambda>(opts, now, args, s). if splitEventChain s then 0 else Suc 0)")
    (simp_all add: splitEventChain_split_chain splitEventChain_land_event)

declare listener.simps [simp del]

subsection \<open>The handle\<close>

definition cancel :: "'a state \<Rightarrow> bool \<times> 'a state" where
  "cancel s = (if \<not> cancelled s then (True, reset (s\<lparr>cancelled := True\<rparr>)) else (False, s))"

definition resume :: "'a state \<Rightarrow> bool \<times> 'a state" where
  "resume s = (if cancelled s then (True, s\<lparr>cancelled := False\<rparr>) else (False, s))"

text \<open>\<^verbatim>\<open>globalBounce\<close>: \<open>force\<close> is whether the argument is \<^verbatim>\<open>true\<close>.\<close>

definition globalBounce :: "bool \<Rightarrow> 'a state \<Rightarrow> bool \<times> 'a state" where
  "globalBounce force s =
     (if force \<or> gotAnyEvent s then triggerBounce Global s else (False, s))"

text \<open>\<^verbatim>\<open>throttledDebounce\<close>: the variables as declared, then \<^verbatim>\<open>reset()\<close>.\<close>

definition declared :: "'a state" where
  "declared = \<lparr>maxDelayHandle = None, throttleHandle = None, didBounce = False,
     throttleTime = None, cancelled = False, the_context = 0, gotAnyEvent = False,
     bounce = 0, splitEventChain = False, includeLastEventOnSplitting = False,
     heap = [], timers = [], next_handle = 0, calls = []\<rparr>"

definition throttledDebounce :: "'a state" where
  "throttledDebounce = reset declared"

subsection \<open>Operations on the handle, and timers that fire\<close>

text \<open>The host fires the pending timer with handle \<open>h\<close> at time \<open>now\<close>: the timer leaves the
  queue and its function runs. A handle that is not pending fires nothing.\<close>

definition fire :: "'a options \<Rightarrow> nat \<Rightarrow> int \<Rightarrow> 'a state \<Rightarrow> 'a state" where
  "fire opts h now s =
     (case find (\<lambda>t. fst t = h) (timers s) of
        None \<Rightarrow> s
      | Some (_, f, _) \<Rightarrow>
          let s1 = s\<lparr>timers := filter (\<lambda>t. fst t \<noteq> h) (timers s)\<rparr>
          in (case f of
                FeedThrottleTimeoutFunc \<Rightarrow> feedThrottleTimeoutFunc opts now s1
              | MaxDelayTimeoutFunc \<Rightarrow> maxDelayTimeoutFunc s1))"

text \<open>What can happen to an instance: a call of the listener at some time with some
  arguments, a timer firing at some time, the three methods of the handle, and a call of
  the \<^verbatim>\<open>split\<close> closure of some context object from outside the control function.\<close>

datatype 'a action =
    Listener int "'a list"
  | Fire nat int
  | GlobalBounce bool
  | Cancel
  | Resume
  | Split nat bool

fun step :: "'a options \<Rightarrow> 'a state \<Rightarrow> 'a action \<Rightarrow> 'a state" where
  "step opts s (Listener now args) = listener opts now args s"
| "step opts s (Fire h now) = fire opts h now s"
| "step opts s (GlobalBounce force) = snd (globalBounce force s)"
| "step opts s Cancel = snd (cancel s)"
| "step opts s Resume = snd (resume s)"
| "step opts s (Split g includeCurrent) = snd (split g includeCurrent s)"

definition run :: "'a options \<Rightarrow> 'a action list \<Rightarrow> 'a state" where
  "run opts acts = foldl (step opts) throttledDebounce acts"

subsection \<open>Deterministic timers\<close>

text \<open>With deterministic timers every timer fires exactly when it is due, the earliest
  first (the older one first when two are due together). \<open>advance n opts t s\<close> fires the
  timers due up to time \<open>t\<close>; it gives \<open>None\<close> when more than \<open>n\<close> timers would have to
  fire.\<close>

fun earliest :: "(nat \<times> timer_func \<times> int) list \<Rightarrow> (nat \<times> timer_func \<times> int) option" where
  "earliest [] = None"
| "earliest (t # ts) =
     (case earliest ts of
        None \<Rightarrow> Some t
      | Some u \<Rightarrow> if snd (snd u) < snd (snd t) then Some u else Some t)"

fun advance :: "nat \<Rightarrow> 'a options \<Rightarrow> int \<Rightarrow> 'a state \<Rightarrow> 'a state option" where
  "advance 0 opts t s = None"
| "advance (Suc n) opts t s =
     (case earliest (filter (\<lambda>x. snd (snd x) \<le> t) (timers s)) of
        None \<Rightarrow> Some s
      | Some (h, f, due) \<Rightarrow> advance n opts t (fire opts h due s))"

text \<open>Events, each a time and the arguments of the listener, arrive in order; the timers
  due at or before the time of an event fire before it.\<close>

fun simulate :: "nat \<Rightarrow> 'a options \<Rightarrow> (int \<times> 'a list) list \<Rightarrow> 'a state \<Rightarrow> 'a state option" where
  "simulate n opts [] s = Some s"
| "simulate n opts ((t, args) # events) s =
     (case advance n opts t s of
        None \<Rightarrow> None
      | Some s1 \<Rightarrow> simulate n opts events (listener opts t args s1))"

text \<open>The events, then quiet until time \<open>t\<close>.\<close>

definition simulate_until :: "nat \<Rightarrow> 'a options \<Rightarrow> (int \<times> 'a list) list \<Rightarrow> int \<Rightarrow> 'a state option" where
  "simulate_until n opts events t =
     (case simulate n opts events throttledDebounce of
        None \<Rightarrow> None
      | Some s \<Rightarrow> advance n opts t s)"

subsection \<open>Callbacks that call the handle, and callbacks that throw\<close>























section \<open>Invariants\<close>

subsection \<open>What reset and a bounce do to each variable\<close>





subsection \<open>The invariants and the order of states\<close>














subsection \<open>Bounce and reset keep the invariants\<close>






subsection \<open>The steps of the listener keep the invariants\<close>















subsection \<open>The timing engine keeps the invariants\<close>







subsection \<open>A timer that fires\<close>




subsection \<open>The listener keeps the invariants\<close>





subsection \<open>The handle keeps the invariants\<close>




subsection \<open>Every reachable state satisfies the invariants\<close>





section \<open>The paths through the listener\<close>
























section \<open>Callbacks that return without calling the handle\<close>






















section \<open>Facts for the claims\<close>


text \<open>The definitions unfolded to run a scenario with deterministic timers.\<close>

lemmas sim_simps = simulate_until_def eval_nat_numeral listener.simps listener_timing_def
  feedThrottle_def feedThrottleTimeoutFunc_def createThrottleTimeout_def setTimeoutFunc_def
  passedTime_def land_event_def call_bounce_def contextBounce_def triggerBounce_def reset_def
  clearTimeoutFunc_def fire_def maxDelayTimeoutFunc_def setMaxDelay_def throttledDebounce_def
  declared_def fresh_context_def Let_def

section \<open>The claims\<close>

text \<open>
  A sequence of operations on an instance is a list of actions. With a callback that returns
  without calling the handle it is run from the state \<open>throttledDebounce\<close> by \<open>run\<close>;
  with any callback \<open>cb\<close> it is run by \<open>run_re\<close>, to a depth of nesting. The control
  function acts through \<^verbatim>\<open>split\<close> only. C1 is about the callback; the other claims are stated
  for a callback that returns without calling the handle.
\<close>

subsection \<open>C1: one callback per chain, and no change to a context after its bounce\<close>










subsection \<open>C2: four events 30 ms apart with a throttle wait of 100 ms\<close>

definition C2_options :: "'a options" where
  "C2_options = \<lparr>controlFunc = None, maxDelay = None, throttleWait = 100\<rparr>"

text \<open>
  C2, as amended. With a throttle wait of 100 ms, no max delay, no control function and
  deterministic timers, after listener calls at the times 0, 30, 60 and 90 and quiet
  afterwards, the callback has not been called up to the time 189, and at the time 190
  (the throttle wait after the last event) it has been called exactly once, with trigger
  \<^verbatim>\<open>throttle\<close>, call count 4 and the arguments of the call at 90.
\<close>

theorem throttle_commit_after_quiet:
  "map_option calls
     (simulate_until 10 C2_options [(0, a), (30, b), (60, c), (90, d)] 189) = Some [] \<and>
   map_option calls
     (simulate_until 10 C2_options [(0, a), (30, b), (60, c), (90, d)] 190) =
   Some [(0, \<lparr>callCount = 4, arguments = Some d, trigger = Some Throttle, has_split = False\<rparr>)]"
  by (simp add: sim_simps C2_options_def)

text \<open>
  The claim as stated fails: at the time 100 the first throttle timer has fired, the
  callback has not been called, the chain still holds its four events and the throttle
  timer is set again, due at 190.
\<close>

theorem no_commit_when_first_timer_fires:
  "map_option (\<lambda>s. (calls s, timers s, callCount (heap s ! the_context s)))
     (simulate_until 10 C2_options [(0, [0::nat]), (30, [30]), (60, [60]), (90, [90])] 100) =
   Some ([], [(1, FeedThrottleTimeoutFunc, 190)], 4)"
  by code_simp

subsection \<open>C3: a later event of a chain while the throttle timer is outstanding\<close>

definition C3_options :: "nat options" where
  "C3_options = \<lparr>controlFunc = None, maxDelay = None, throttleWait = 100\<rparr>"

definition C3_state :: "nat state" where
  "C3_state = listener C3_options 0 [1] throttledDebounce"

text \<open>
  C3, as amended. When \<^verbatim>\<open>feedThrottle\<close> runs while a throttle timer is outstanding and the
  elapsed time \<open>throttleWait - (throttleTime - now)\<close> is positive, the throttle time is
  extended by the elapsed time, which makes it \<open>now + throttleWait\<close>, and nothing else
  changes: the callback is not called, the chain, its context and the timers stay as they
  are.
\<close>

theorem feedThrottle_overtime:
  assumes "throttleHandle s \<noteq> None" "0 < passedTime opts now s"
  shows "throttleTime s \<noteq> None \<and>
    feedThrottle opts now s =
      s\<lparr>throttleTime := Some (the (throttleTime s) + passedTime opts now s)\<rparr> \<and>
    the (throttleTime s) + passedTime opts now s = now + throttleWait opts \<and>
    calls (feedThrottle opts now s) = calls s \<and>
    the_context (feedThrottle opts now s) = the_context s \<and>
    heap (feedThrottle opts now s) = heap s \<and>
    timers (feedThrottle opts now s) = timers s"
proof -
  obtain tt where tt: "throttleTime s = Some tt"
    using assms(2) by (cases "throttleTime s") (simp_all add: passedTime_def)
  have p: "passedTime opts now s = throttleWait opts - (tt - now)"
    using assms(2) tt by (simp add: passedTime_def split: if_splits)
  have eq: "feedThrottle opts now s = s\<lparr>throttleTime := Some (tt + passedTime opts now s)\<rparr>"
    using assms tt by (auto simp add: feedThrottle_def)
  show ?thesis unfolding eq using tt p by simp
qed

theorem feedThrottle_overtime_witness:
  "throttleHandle C3_state \<noteq> None \<and> 0 < passedTime C3_options 30 C3_state \<and>
   throttleTime (feedThrottle C3_options 30 C3_state) = Some 130 \<and>
   calls (feedThrottle C3_options 30 C3_state) = calls C3_state"
proof -
  have h: "throttleHandle C3_state \<noteq> None" by code_simp
  have p: "0 < passedTime C3_options 30 C3_state" by code_simp
  have t: "throttleTime C3_state = Some 100" by code_simp
  have q: "passedTime C3_options 30 C3_state = 30" by code_simp
  show ?thesis using feedThrottle_overtime [OF h p] h p by (simp add: t q)
qed

text \<open>
  The claim as stated fails in both branches. After a first event at the time 0, an event
  at the time 30 has elapsed time 30: the throttle time moves from 100 to 130 and the
  callback is not called. An event at the time 0 has elapsed time 0: the callback is
  called at once with trigger \<^verbatim>\<open>throttle\<close>.
\<close>

theorem feedThrottle_commits_without_overtime:
  "throttleHandle C3_state = Some 0 \<and> throttleTime C3_state = Some 100 \<and>
   passedTime C3_options 30 C3_state = 30 \<and>
   calls (feedThrottle C3_options 30 C3_state) = [] \<and>
   throttleTime (feedThrottle C3_options 30 C3_state) = Some 130 \<and>
   passedTime C3_options 0 C3_state = 0 \<and>
   calls (feedThrottle C3_options 0 C3_state) =
     [(0, \<lparr>callCount = 1, arguments = Some [1], trigger = Some Throttle, has_split = False\<rparr>)]"
  by code_simp

subsection \<open>C4: the control function calls split(false) on the third event\<close>








subsection \<open>C5: redundant calls return nothing and change nothing\<close>

definition C5_options :: "nat options" where
  "C5_options = \<lparr>controlFunc = None, maxDelay = Some 3000, throttleWait = 100\<rparr>"

text \<open>
  C5. Each of these calls returns \<^verbatim>\<open>undefined\<close> and leaves the state as it is: \<^verbatim>\<open>cancel()\<close> on
  a cancelled instance, \<^verbatim>\<open>resume()\<close> on an instance that is not cancelled, \<^verbatim>\<open>bounce()\<close>
  without force when no event has landed in the chain, \<^verbatim>\<open>split\<close> of a context that is not the
  present one, and a second call of \<^verbatim>\<open>split\<close> in one invocation of the control function
  (the first call, on the present context, is accepted).
\<close>

theorem redundant_calls_change_nothing:
  "(cancelled s \<longrightarrow> cancel s = (False, s)) \<and>
   (\<not> cancelled s \<longrightarrow> resume s = (False, s)) \<and>
   (\<not> gotAnyEvent s \<longrightarrow> globalBounce False s = (False, s)) \<and>
   (g \<noteq> the_context s \<longrightarrow> split g i s = (False, s)) \<and>
   fst (split (the_context s) i (before_controlFunc s)) \<and>
   split (the_context s) j (snd (split (the_context s) i (before_controlFunc s))) =
     (False, snd (split (the_context s) i (before_controlFunc s)))"
  by (simp add: cancel_def resume_def globalBounce_def split_def before_controlFunc_def Let_def)

theorem redundant_calls_change_nothing_witness:
  "cancelled (run C5_options [Listener 0 [1], Cancel]) \<and>
   cancel (run C5_options [Listener 0 [1], Cancel]) =
     (False, run C5_options [Listener 0 [1], Cancel]) \<and>
   \<not> cancelled (run C5_options [Listener 0 [1]]) \<and>
   resume (run C5_options [Listener 0 [1]]) = (False, run C5_options [Listener 0 [1]]) \<and>
   \<not> gotAnyEvent (run C5_options []) \<and>
   globalBounce False (run C5_options []) = (False, run C5_options []) \<and>
   0 \<noteq> the_context (run C5_options [Listener 0 [1], GlobalBounce False]) \<and>
   split 0 True (run C5_options [Listener 0 [1], GlobalBounce False]) =
     (False, run C5_options [Listener 0 [1], GlobalBounce False])"
proof -
  have 1: "cancelled (run C5_options [Listener 0 [1], Cancel])" by code_simp
  have 2: "\<not> cancelled (run C5_options [Listener 0 [1]])" by code_simp
  have 3: "\<not> gotAnyEvent (run C5_options [])" by code_simp
  have 4: "0 \<noteq> the_context (run C5_options [Listener 0 [1], GlobalBounce False])" by code_simp
  show ?thesis
    using redundant_calls_change_nothing [of "run C5_options [Listener 0 [1], Cancel]"]
      redundant_calls_change_nothing [of "run C5_options [Listener 0 [1]]"]
      redundant_calls_change_nothing [of "run C5_options []"]
      redundant_calls_change_nothing [of "run C5_options [Listener 0 [1], GlobalBounce False]" 0 True]
      1 2 3 4
    by blast
qed

subsection \<open>C6: a forced bounce of an empty chain\<close>




subsection \<open>C7: cancel, resume and the next event\<close>




subsection \<open>C8: the max-delay timer\<close>






subsection \<open>C9: a max-delay timer set for an empty chain\<close>

definition C9_options :: "nat options" where
  "C9_options = \<lparr>controlFunc = None, maxDelay = Some 3000, throttleWait = 500\<rparr>"

text \<open>
  C9. With a max delay of 3000 ms and a throttle wait of 500 ms, two listener calls at the
  same time 0: the second call bounces the chain with trigger \<^verbatim>\<open>throttle\<close> and then sets a
  max-delay timer, so that the new chain has no event and a max-delay timer due at 3000.
  When that timer fires the callback is called with the context of the empty chain: call
  count 0, no arguments, trigger \<^verbatim>\<open>debounce\<close>.
\<close>

theorem empty_chain_debounced:
  "map_option (\<lambda>s. (the_context s, gotAnyEvent s, maxDelayHandle s, timers s, calls s))
     (simulate 10 C9_options [(0, [1]), (0, [2])] throttledDebounce) =
   Some (1, False, Some 2, [(2, MaxDelayTimeoutFunc, 3000)],
     [(0, \<lparr>callCount = 2, arguments = Some [2], trigger = Some Throttle, has_split = False\<rparr>)]) \<and>
   map_option calls (simulate_until 10 C9_options [(0, [1]), (0, [2])] 3000) =
   Some [(0, \<lparr>callCount = 2, arguments = Some [2], trigger = Some Throttle, has_split = False\<rparr>),
         (1, \<lparr>callCount = 0, arguments = None, trigger = Some Debounce, has_split = False\<rparr>)]"
  by code_simp

subsection \<open>C10: a call of split while the event is injected again\<close>











end
